theory Spec2Isabelle
  imports Complex_Main "HOL-Library.AList"
begin

section \<open>Python values and failures\<close>

text \<open>
  The measurement mapping of \<^verbatim>\<open>errorcalc.py\<close> holds Python numbers, written as integer
  or floating literals (\<^verbatim>\<open>(1, '\\volt')\<close>, \<^verbatim>\<open>(0.4, '\\volt')\<close>). The two kinds print
  differently, so the model keeps them apart; arithmetic is carried out on the real number
  a literal denotes.
\<close>

datatype pynum = PyInt int | PyFloat real

fun num_val :: "pynum \<Rightarrow> real" where
  "num_val (PyInt i) = of_int i"
| "num_val (PyFloat r) = r"

text \<open>
  The exceptions the constructor and the methods of class \<^verbatim>\<open>Error\<close> can raise, or pass
  on from the formula.
\<close>

datatype error = KeyError string | IndexError | TypeError | AttributeError

abbreviation BS :: char where "BS \<equiv> CHR 0x5C"

section \<open>Symbolic expressions\<close>

text \<open>
  The expressions the computer-algebra library builds when the formula is applied to
  symbols. \<open>Sub\<close> and \<open>Div\<close> are Python's binary \<^verbatim>\<open>-\<close> and \<^verbatim>\<open>/\<close>, \<open>Pow\<close> is \<^verbatim>\<open>**\<close>,
  \<open>Abs\<close> is what \<^verbatim>\<open>abs(...)\<close> yields on an expression, and \<open>UnevaluatedExpr\<close> wraps a
  number that is to be displayed literally.
\<close>

datatype expr =
    Num real
  | Sym string
  | UnevaluatedExpr pynum
  | Add expr expr
  | Sub expr expr
  | Mul expr expr
  | Div expr expr
  | Pow expr expr
  | Sin expr
  | Cos expr
  | Sqrt expr
  | Ln expr
  | Abs expr

text \<open>Whether a symbol occurs in an expression, and the set of all symbols that do.\<close>

primrec has :: "expr \<Rightarrow> string \<Rightarrow> bool" where
  "has (Num c) x = False"
| "has (Sym y) x = (y = x)"
| "has (UnevaluatedExpr n) x = False"
| "has (Add u v) x = (has u x \<or> has v x)"
| "has (Sub u v) x = (has u x \<or> has v x)"
| "has (Mul u v) x = (has u x \<or> has v x)"
| "has (Div u v) x = (has u x \<or> has v x)"
| "has (Pow u v) x = (has u x \<or> has v x)"
| "has (Sin u) x = has u x"
| "has (Cos u) x = has u x"
| "has (Sqrt u) x = has u x"
| "has (Ln u) x = has u x"
| "has (Abs u) x = has u x"

definition free_symbols :: "expr \<Rightarrow> string set" where
  "free_symbols e = {x. has e x}"

primrec closed :: "expr \<Rightarrow> bool" where
  "closed (Num c) = True"
| "closed (Sym y) = False"
| "closed (UnevaluatedExpr n) = True"
| "closed (Add u v) = (closed u \<and> closed v)"
| "closed (Sub u v) = (closed u \<and> closed v)"
| "closed (Mul u v) = (closed u \<and> closed v)"
| "closed (Div u v) = (closed u \<and> closed v)"
| "closed (Pow u v) = (closed u \<and> closed v)"
| "closed (Sin u) = closed u"
| "closed (Cos u) = closed u"
| "closed (Sqrt u) = closed u"
| "closed (Ln u) = closed u"
| "closed (Abs u) = closed u"

text \<open>
  Real powers: an integral exponent is a repeated product (or its inverse), so that a
  negative base is allowed there; any other exponent is \<open>exp (y * ln x)\<close>.
\<close>

definition pow_real :: "real \<Rightarrow> real \<Rightarrow> real" where
  "pow_real x y = (if y = of_int \<lfloor>y\<rfloor> then x powi \<lfloor>y\<rfloor> else x powr y)"

text \<open>The value of an expression at a point, an assignment of reals to symbols.\<close>

primrec eval :: "(string \<Rightarrow> real) \<Rightarrow> expr \<Rightarrow> real" where
  "eval \<rho> (Num c) = c"
| "eval \<rho> (Sym y) = \<rho> y"
| "eval \<rho> (UnevaluatedExpr n) = num_val n"
| "eval \<rho> (Add u v) = eval \<rho> u + eval \<rho> v"
| "eval \<rho> (Sub u v) = eval \<rho> u - eval \<rho> v"
| "eval \<rho> (Mul u v) = eval \<rho> u * eval \<rho> v"
| "eval \<rho> (Div u v) = eval \<rho> u / eval \<rho> v"
| "eval \<rho> (Pow u v) = pow_real (eval \<rho> u) (eval \<rho> v)"
| "eval \<rho> (Sin u) = sin (eval \<rho> u)"
| "eval \<rho> (Cos u) = cos (eval \<rho> u)"
| "eval \<rho> (Sqrt u) = sqrt (eval \<rho> u)"
| "eval \<rho> (Ln u) = ln (eval \<rho> u)"
| "eval \<rho> (Abs u) = \<bar>eval \<rho> u\<bar>"

text \<open>
  \<^verbatim>\<open>expr.subs(mapping)\<close>: every symbol that is a key of the mapping is replaced by the
  mapped expression, all at once; the other symbols stay.
\<close>

primrec subs :: "(string \<times> expr) list \<Rightarrow> expr \<Rightarrow> expr" where
  "subs \<sigma> (Num c) = Num c"
| "subs \<sigma> (Sym y) = (case map_of \<sigma> y of None \<Rightarrow> Sym y | Some e \<Rightarrow> e)"
| "subs \<sigma> (UnevaluatedExpr n) = UnevaluatedExpr n"
| "subs \<sigma> (Add u v) = Add (subs \<sigma> u) (subs \<sigma> v)"
| "subs \<sigma> (Sub u v) = Sub (subs \<sigma> u) (subs \<sigma> v)"
| "subs \<sigma> (Mul u v) = Mul (subs \<sigma> u) (subs \<sigma> v)"
| "subs \<sigma> (Div u v) = Div (subs \<sigma> u) (subs \<sigma> v)"
| "subs \<sigma> (Pow u v) = Pow (subs \<sigma> u) (subs \<sigma> v)"
| "subs \<sigma> (Sin u) = Sin (subs \<sigma> u)"
| "subs \<sigma> (Cos u) = Cos (subs \<sigma> u)"
| "subs \<sigma> (Sqrt u) = Sqrt (subs \<sigma> u)"
| "subs \<sigma> (Ln u) = Ln (subs \<sigma> u)"
| "subs \<sigma> (Abs u) = Abs (subs \<sigma> u)"

text \<open>
  The library folds arithmetic on numbers while an expression is built, so an expression
  without symbols is a number; one that still mentions a symbol stays symbolic.
\<close>

definition evaluate :: "expr \<Rightarrow> expr" where
  "evaluate e = (if closed e then Num (eval (\<lambda>_. 0) e) else e)"

text \<open>
  Modelled from the spec: the method \<^verbatim>\<open>diff\<close> of the computer-algebra library, which is
  not part of the repository. It follows the rules of the specification's section 4.2:
  a subtree unrelated to the variable has derivative 0; sums and differences are
  differentiated termwise; \<open>(u v)' = u' v + u v'\<close>; \<open>(u / v)' = (u' v - u v') / v\<^sup>2\<close>;
  \<open>(u ^ v)' = v u ^ (v - 1) u'\<close> when \<open>v\<close> does not depend on the variable and
  \<open>u ^ v (v' ln u + v u' / u)\<close> when it does; \<open>sin(u)' = cos(u) u'\<close>,
  \<open>cos(u)' = - sin(u) u'\<close>, \<open>sqrt(u)' = u' / (2 sqrt(u))\<close>, and the analogous rules
  \<open>ln(u)' = u' / u\<close> and \<open>|u|' = (u / |u|) u'\<close>.
\<close>

fun diff :: "expr \<Rightarrow> string \<Rightarrow> expr" where
  "diff (Num c) x = Num 0"
| "diff (Sym y) x = (if y = x then Num 1 else Num 0)"
| "diff (UnevaluatedExpr n) x = Num 0"
| "diff (Add u v) x =
     (if has (Add u v) x then Add (diff u x) (diff v x) else Num 0)"
| "diff (Sub u v) x =
     (if has (Sub u v) x then Sub (diff u x) (diff v x) else Num 0)"
| "diff (Mul u v) x =
     (if has (Mul u v) x then Add (Mul (diff u x) v) (Mul u (diff v x)) else Num 0)"
| "diff (Div u v) x =
     (if has (Div u v) x
      then Div (Sub (Mul (diff u x) v) (Mul u (diff v x))) (Pow v (Num 2))
      else Num 0)"
| "diff (Pow u v) x =
     (if \<not> has (Pow u v) x then Num 0
      else if \<not> has v x then Mul (Mul v (Pow u (Sub v (Num 1)))) (diff u x)
      else Mul (Pow u v) (Add (Mul (diff v x) (Ln u)) (Div (Mul v (diff u x)) u)))"
| "diff (Sin u) x = (if has u x then Mul (Cos u) (diff u x) else Num 0)"
| "diff (Cos u) x = (if has u x then Mul (Mul (Num (- 1)) (Sin u)) (diff u x) else Num 0)"
| "diff (Sqrt u) x = (if has u x then Div (diff u x) (Mul (Num 2) (Sqrt u)) else Num 0)"
| "diff (Ln u) x = (if has u x then Div (diff u x) u else Num 0)"
| "diff (Abs u) x = (if has u x then Mul (Div u (Abs u)) (diff u x) else Num 0)"



text \<open>
  What a formula can return when it is called: an expression, or a plain Python number
  (as \<^verbatim>\<open>def g(a): return 3\<close> does). A plain number has no method \<^verbatim>\<open>diff\<close>.
\<close>

datatype pyval = Expression expr | Number pynum

section \<open>Python built-ins used by the class\<close>

text \<open>\<^verbatim>\<open>d[key]\<close> on a dictionary, kept as an association list in insertion order.\<close>

definition getitem :: "(string \<times> 'v) list \<Rightarrow> string \<Rightarrow> error + 'v" where
  "getitem d k = (case map_of d k of None \<Rightarrow> Inl (KeyError k) | Some v \<Rightarrow> Inr v)"

text \<open>\<^verbatim>\<open>xs[i]\<close> on a list, for an index that is not negative.\<close>

definition index :: "'a list \<Rightarrow> nat \<Rightarrow> error + 'a" where
  "index xs i = (if i < length xs then Inr (xs ! i) else Inl IndexError)"

text \<open>\<^verbatim>\<open>s.split(c)\<close> for a separator of one character.\<close>

fun split :: "char \<Rightarrow> string \<Rightarrow> string list" where
  "split c [] = [[]]"
| "split c (x # xs) =
     (if x = c then [] # split c xs
      else (case split c xs of [] \<Rightarrow> [[x]] | w # ws \<Rightarrow> (x # w) # ws))"

text \<open>\<^verbatim>\<open>sep.join(xs)\<close>.\<close>

fun join :: "string \<Rightarrow> string list \<Rightarrow> string" where
  "join sep [] = []"
| "join sep [x] = x"
| "join sep (x # y # ys) = x @ sep @ join sep (y # ys)"

text \<open>
  \<^verbatim>\<open>s.replace(old, new)\<close>: the occurrences of \<open>old\<close> are replaced from left to right
  without overlap; an empty \<open>old\<close> matches before every character and at the end.
\<close>

function replace :: "string \<Rightarrow> string \<Rightarrow> string \<Rightarrow> string" where
  "replace old new [] = (if old = [] then new else [])"
| "replace old new (c # cs) =
     (if old = [] then new @ c # replace old new cs
      else if take (length old) (c # cs) = old
      then new @ replace old new (drop (length old) (c # cs))
      else c # replace old new cs)"
  by pat_completeness auto
termination
  by (relation "measure (\<lambda>(old, new, s). length s)") auto

text \<open>
  A list comprehension whose element expression may raise: the elements are computed in
  order and the first exception ends the comprehension.
\<close>

fun comprehension :: "('a \<Rightarrow> error + 'b) \<Rightarrow> 'a list \<Rightarrow> error + 'b list" where
  "comprehension g [] = Inr []"
| "comprehension g (x # xs) =
     (case g x of
        Inl e \<Rightarrow> Inl e
      | Inr y \<Rightarrow> (case comprehension g xs of Inl e \<Rightarrow> Inl e | Inr ys \<Rightarrow> Inr (y # ys)))"

text \<open>\<^verbatim>\<open>sum(xs)\<close> on expressions: it starts from 0 and adds from the left.\<close>

definition sum_exprs :: "expr list \<Rightarrow> expr" where
  "sum_exprs ts = foldl Add (Num 0) ts"

text \<open>\<^verbatim>\<open>float(e)\<close>: the value of an expression without symbols, a \<^verbatim>\<open>TypeError\<close> otherwise.\<close>

definition to_float :: "expr \<Rightarrow> error + real" where
  "to_float e = (if closed e then Inr (eval (\<lambda>_. 0) e) else Inl TypeError)"

text \<open>\<^verbatim>\<open>int(x)\<close> on a number truncates towards zero.\<close>

fun to_int :: "pynum \<Rightarrow> int" where
  "to_int (PyInt i) = i"
| "to_int (PyFloat r) = (if 0 \<le> r then \<lfloor>r\<rfloor> else \<lceil>r\<rceil>)"

section \<open>The formula and its signature\<close>

text \<open>
  A Python function, lambda or bound method as \<^verbatim>\<open>inspect.getfullargspec\<close> sees it
  (for an object that is not callable \<^verbatim>\<open>getfullargspec\<close> itself raises, and no instance
  is built): the names of the positional
  parameters (those with a default value included), the default values of the last of
  them, the name of a \<^verbatim>\<open>*args\<close> and of a \<^verbatim>\<open>**kwargs\<close> parameter, the keyword-only
  parameters and the defaults of those that have one. \<open>bound\<close> tells a bound method:
  \<^verbatim>\<open>getfullargspec\<close> lists its first parameter (\<^verbatim>\<open>self\<close>) although a call does not
  supply it. \<open>body\<close> is the outcome of the callable for the positional arguments of a
  call: the exception it raises, or the value it returns.
\<close>

record pyfunc =
  args :: "string list"
  varargs :: "string option"
  varkw :: "string option"
  defaults :: "pynum list"
  kwonlyargs :: "string list"
  kwonlydefaults :: "(string \<times> pynum) list"
  bound :: bool
  body :: "expr list \<Rightarrow> error + pyval"

text \<open>
  \<^verbatim>\<open>func(*xs)\<close>: a call with positional arguments only. The parameters that receive
  them are the positional parameters, without the first one for a bound method. Python
  raises \<^verbatim>\<open>TypeError\<close> when such a parameter without default receives no argument, when
  there are more arguments than such parameters and no \<^verbatim>\<open>*args\<close>, and when a
  keyword-only parameter has no default. Otherwise the body runs.
\<close>

definition call :: "pyfunc \<Rightarrow> expr list \<Rightarrow> error + pyval" where
  "call func xs =
     (let params = (if bound func then tl (args func) else args func)
      in if length xs + length (defaults func) < length params then Inl TypeError
         else if length params < length xs \<and> varargs func = None then Inl TypeError
         else if \<not> list_all (\<lambda>k. map_of (kwonlydefaults func) k \<noteq> None) (kwonlyargs func)
         then Inl TypeError
         else body func xs)"

section \<open>Class Error of errorcalc.py\<close>

text \<open>
  The attributes set by \<^verbatim>\<open>__init__\<close>. \<open>variables\<close> holds the symbols, each determined
  by its name, which \<^verbatim>\<open>str\<close> returns; \<open>derivatives\<close> is the dictionary from variable
  name to partial derivative, in insertion order.
\<close>

record Error =
  variables :: "string list"
  error_symbols :: "string list"
  f :: expr
  derivatives :: "(string \<times> expr) list"

text \<open>
  \<^verbatim>\<open>Error.__init__\<close> (lines 6 to 22): the names come from
  \<^verbatim>\<open>inspect.getfullargspec(func).args\<close>, the formula is called once on the symbols, and
  the loop stores one derivative per variable with \<^verbatim>\<open>self.derivatives[str(variable)] = ...\<close>.
  When the formula returns a plain number, the first round of the loop raises
  \<^verbatim>\<open>AttributeError\<close> at \<^verbatim>\<open>self.f.diff\<close>; without variables the loop has no round, and
  the number stays in \<^verbatim>\<open>self.f\<close>, which no method reads.
\<close>

definition Error_init :: "pyfunc \<Rightarrow> error + Error" where
  "Error_init func =
     (let arg_names = args func;
          vars = arg_names;
          esyms = map (\<lambda>variable. ''delta_'' @ variable) vars
      in case call func (map Sym vars) of
           Inl e \<Rightarrow> Inl e
         | Inr (Number n) \<Rightarrow>
             (if vars = []
              then Inr \<lparr>variables = [], error_symbols = [], f = Num (num_val n),
                        derivatives = []\<rparr>
              else Inl AttributeError)
         | Inr (Expression fe) \<Rightarrow>
             Inr \<lparr>variables = vars, error_symbols = esyms, f = fe,
                  derivatives =
                    foldl (\<lambda>d variable. AList.update variable (diff fe variable) d) [] vars\<rparr>)"

text \<open>
  A measurement mapping: a dictionary from names to pairs of a number and a unit label.
\<close>

type_synonym measurements = "(string \<times> (pynum \<times> string)) list"

text \<open>\<^verbatim>\<open>{k: v[0] for k, v in values.items()}\<close>, the substitution used for the numeric result.\<close>

definition numeric_subst :: "measurements \<Rightarrow> (string \<times> expr) list" where
  "numeric_subst vals = map (\<lambda>(k, v). (k, Num (num_val (fst v)))) vals"

text \<open>
  One element of the list that \<^verbatim>\<open>result\<close> and \<^verbatim>\<open>latex_out\<close> sum up (lines 67, 68 and
  78, 79): \<^verbatim>\<open>values[delta_name][0] * abs(self.derivatives[delta_name.split("_")[1]].subs(...))\<close>.
  The left factor is evaluated first.
\<close>

definition error_term :: "Error \<Rightarrow> measurements \<Rightarrow> string \<Rightarrow> error + expr" where
  "error_term self vals delta_name =
     (case getitem vals delta_name of
        Inl e \<Rightarrow> Inl e
      | Inr u \<Rightarrow>
          (case index (split (CHR ''_'') delta_name) 1 of
             Inl e \<Rightarrow> Inl e
           | Inr name \<Rightarrow>
               (case getitem (derivatives self) name of
                  Inl e \<Rightarrow> Inl e
                | Inr d \<Rightarrow>
                    Inr (Mul (Num (num_val (fst u))) (Abs (subs (numeric_subst vals) d))))))"

definition error_sum :: "Error \<Rightarrow> measurements \<Rightarrow> error + expr" where
  "error_sum self vals =
     (case comprehension (error_term self vals) (error_symbols self) of
        Inl e \<Rightarrow> Inl e
      | Inr ts \<Rightarrow> Inr (evaluate (sum_exprs ts)))"

text \<open>
  \<^verbatim>\<open>Error.result\<close> (lines 75 to 83). The method assigns to no attribute of \<open>self\<close>; the
  instance is returned with the value so that a later call is made on the instance this
  one leaves behind.
\<close>

definition Error_result :: "Error \<Rightarrow> measurements \<Rightarrow> (error + expr) \<times> Error" where
  "Error_result self vals = (error_sum self vals, self)"


section \<open>Rendering\<close>

text \<open>
  \<^verbatim>\<open>latex_out\<close> relies on two printers that are not the repository's: \<^verbatim>\<open>sym.latex\<close>,
  which typesets an expression, and Python's formatting of a number inside an f-string.
  Both are parameters of the model, \<open>latex\<close> and \<open>format\<close>.
\<close>

text \<open>\<^verbatim>\<open>{key: sym.UnevaluatedExpr(value[0]) for key, value in values.items()}\<close>.\<close>

definition display_subst :: "measurements \<Rightarrow> (string \<times> expr) list" where
  "display_subst vals = map (\<lambda>(key, v). (key, UnevaluatedExpr (fst v))) vals"

text \<open>
  One round of the loop of \<^verbatim>\<open>substitute\<close> (lines 26 to 36). The derivative is
  substituted and typeset before the f-string reads \<^verbatim>\<open>values['delta_'+variable_name]\<close>.
\<close>

definition substitute_term ::
  "(expr \<Rightarrow> string) \<Rightarrow> (pynum \<Rightarrow> string) \<Rightarrow> Error \<Rightarrow> measurements \<Rightarrow> string \<Rightarrow> error + string"
where
  "substitute_term latex format self vals variable_name =
     (case getitem (derivatives self) variable_name of
        Inl e \<Rightarrow> Inl e
      | Inr d \<Rightarrow>
          (let derivative_sub = subs (display_subst vals) d;
               derivative_latex = latex derivative_sub
           in case getitem vals (''delta_'' @ variable_name) of
                Inl e \<Rightarrow> Inl e
              | Inr u \<Rightarrow>
                  Inr (format (fst u) @ '' '' @ [BS] @ ''cdot '' @ [BS] @ ''left|''
                       @ derivative_latex @ [BS] @ ''right|'')))"

definition substitute ::
  "(expr \<Rightarrow> string) \<Rightarrow> (pynum \<Rightarrow> string) \<Rightarrow> Error \<Rightarrow> measurements \<Rightarrow> error + string"
where
  "substitute latex format self vals =
     (case comprehension (substitute_term latex format self vals) (variables self) of
        Inl e \<Rightarrow> Inl e
      | Inr derivatives_sub \<Rightarrow> Inr (join '' + '' derivatives_sub))"

text \<open>
  One round of the loop over \<^verbatim>\<open>values.values()\<close> in \<^verbatim>\<open>latex_out\<close> (lines 52 to 62):
  a zero value is skipped, any other value has its printed form replaced by a unit
  annotation, printed as an integer when it is integral.
\<close>

definition annotate :: "(pynum \<Rightarrow> string) \<Rightarrow> string \<Rightarrow> pynum \<times> string \<Rightarrow> string" where
  "annotate format substituted_str v =
     (if num_val (fst v) = 0 then substituted_str
      else if of_int (to_int (fst v)) = num_val (fst v)
      then replace (format (fst v))
             ([BS] @ ''SI{'' @ format (PyInt (to_int (fst v))) @ ''}{'' @ snd v @ ''}'')
             substituted_str
      else replace (format (fst v))
             ([BS] @ ''SI{'' @ format (PyFloat (num_val (fst v))) @ ''}{'' @ snd v @ ''}'')
             substituted_str)"

text \<open>The three lines of the block, in the order in which \<^verbatim>\<open>latex_out\<close> appends them.\<close>

definition generic_line :: "(expr \<Rightarrow> string) \<Rightarrow> Error \<Rightarrow> string" where
  "generic_line latex self =
     ''    &= '' @ [BS] @ ''Delta ''
     @ join ('' + '' @ [BS] @ ''Delta '')
         (map (\<lambda>(delta_name, derivative).
                 delta_name @ '' '' @ [BS] @ ''cdot '' @ [BS] @ ''left|''
                 @ latex derivative @ [BS] @ ''right|'')
            (derivatives self))
     @ [BS, BS] @ ''\<newline>''"

definition substituted_line ::
  "(expr \<Rightarrow> string) \<Rightarrow> (pynum \<Rightarrow> string) \<Rightarrow> Error \<Rightarrow> measurements \<Rightarrow> error + string"
where
  "substituted_line latex format self vals =
     (case substitute latex format self vals of
        Inl e \<Rightarrow> Inl e
      | Inr substituted_str \<Rightarrow>
          Inr (''    &= '' @ foldl (annotate format) substituted_str (map snd vals)
               @ [BS, BS] @ ''\<newline>''))"

definition result_line :: "(pynum \<Rightarrow> string) \<Rightarrow> Error \<Rightarrow> measurements \<Rightarrow> error + string" where
  "result_line format self vals =
     (case error_sum self vals of
        Inl e \<Rightarrow> Inl e
      | Inr result \<Rightarrow>
          (case to_float result of
             Inl e \<Rightarrow> Inl e
           | Inr r \<Rightarrow> Inr (''    &= '' @ [BS] @ ''SI{'' @ format (PyFloat r) @ ''}{}\<newline>'')))"

text \<open>
  \<^verbatim>\<open>Error.latex_out\<close> (lines 39 to 74). Like \<^verbatim>\<open>result\<close> it assigns to no attribute of
  \<open>self\<close>, and the instance is returned with the text.
\<close>

definition latex_text ::
  "(expr \<Rightarrow> string) \<Rightarrow> (pynum \<Rightarrow> string) \<Rightarrow> Error \<Rightarrow> measurements \<Rightarrow> error + string"
where
  "latex_text latex format self vals =
     (let latex_str = [BS] @ ''begin{align*}\<newline>'';
          latex_str = latex_str @ generic_line latex self
      in case substituted_line latex format self vals of
           Inl e \<Rightarrow> Inl e
         | Inr line2 \<Rightarrow>
             (let latex_str = latex_str @ line2
              in case result_line format self vals of
                   Inl e \<Rightarrow> Inl e
                 | Inr line3 \<Rightarrow>
                     Inr (latex_str @ line3 @ [BS] @ ''end{align*}\<newline>\<newline>'')))"

definition Error_latex_out ::
  "(expr \<Rightarrow> string) \<Rightarrow> (pynum \<Rightarrow> string) \<Rightarrow> Error \<Rightarrow> measurements
     \<Rightarrow> (error + string) \<times> Error"
where
  "Error_latex_out latex format self vals = (latex_text latex format self vals, self)"

section \<open>Python's printing of numbers\<close>

text \<open>
  The decimal digits of a natural number, and \<^verbatim>\<open>str\<close> of an integer.
\<close>

fun digits :: "nat \<Rightarrow> string" where
  "digits n =
     (if n < 10 then [''0123456789'' ! n]
      else digits (n div 10) @ [''0123456789'' ! (n mod 10)])"

declare digits.simps [simp del]

definition str_int :: "int \<Rightarrow> string" where
  "str_int i = (if i < 0 then ''-'' @ digits (nat (- i)) else digits (nat i))"

text \<open>
  The digits after the decimal point of a number in \<open>[0, 1)\<close>, at most \<open>n\<close> of them,
  ending where the expansion ends.
\<close>

fun frac_digits :: "nat \<Rightarrow> real \<Rightarrow> string" where
  "frac_digits 0 x = []"
| "frac_digits (Suc n) x =
     (if x = 0 then []
      else (''0123456789'' ! nat \<lfloor>10 * x\<rfloor>)
           # frac_digits n (10 * x - of_int \<lfloor>10 * x\<rfloor>))"

text \<open>
  \<^verbatim>\<open>repr\<close> of a float, which an f-string without format specification uses: the shortest
  decimal numeral that denotes the number, with at least one digit after the point. The
  definition covers the numbers Python prints in positional notation (magnitude from
  \<open>10\<^sup>-\<^sup>4\<close> up to \<open>10\<^sup>1\<^sup>6\<close>, and zero) whose decimal expansion ends within 17 digits.
\<close>

definition repr_float :: "real \<Rightarrow> string" where
  "repr_float r =
     (if r < 0 then ''-'' else [])
     @ digits (nat \<lfloor>\<bar>r\<bar>\<rfloor>) @ ''.''
     @ (case frac_digits 17 (\<bar>r\<bar> - of_int \<lfloor>\<bar>r\<bar>\<rfloor>) of [] \<Rightarrow> ''0'' | d # ds \<Rightarrow> d # ds)"

fun py_format :: "pynum \<Rightarrow> string" where
  "py_format (PyInt i) = str_int i"
| "py_format (PyFloat r) = repr_float r"

text \<open>
  \<^verbatim>\<open>format(r, ".6f")\<close> and its like, the fixed precision that \<^verbatim>\<open>Errorcalculator.py\<close>
  (line 68) and \<^verbatim>\<open>Fehlerrechnung.py\<close> (line 73) use for the last line: the number is
  rounded to \<open>p\<close> digits after the point, a tie going to the even neighbour, and all
  \<open>p\<close> digits are printed.
\<close>

definition round_half_even :: "real \<Rightarrow> int" where
  "round_half_even x =
     (if x - of_int \<lfloor>x\<rfloor> < 1 / 2 then \<lfloor>x\<rfloor>
      else if 1 / 2 < x - of_int \<lfloor>x\<rfloor> then \<lfloor>x\<rfloor> + 1
      else if even \<lfloor>x\<rfloor> then \<lfloor>x\<rfloor> else \<lfloor>x\<rfloor> + 1)"

definition format_fixed :: "nat \<Rightarrow> real \<Rightarrow> string" where
  "format_fixed p r =
     (let scaled = nat (round_half_even (\<bar>r\<bar> * 10 ^ p));
          frac = digits (scaled mod 10 ^ p)
      in (if r < 0 then ''-'' else [])
         @ digits (scaled div 10 ^ p)
         @ (if p = 0 then [] else ''.'' @ replicate (p - length frac) (CHR ''0'') @ frac))"


section \<open>The linear propagation law, as the specification words it\<close>

text \<open>
  The measurement point of a mapping: the value bound to each name (0 for a name that
  the mapping lacks; the law is only read on complete mappings).
\<close>

definition point :: "measurements \<Rightarrow> string \<Rightarrow> real" where
  "point vals y = (case map_of vals y of None \<Rightarrow> 0 | Some v \<Rightarrow> num_val (fst v))"

text \<open>
  Section 4.4 of the specification: the total is the sum, over the declared variables in
  their order, of the uncertainty times the magnitude of the partial derivative at the
  measurement point.
\<close>

definition linear_law :: "expr \<Rightarrow> string list \<Rightarrow> measurements \<Rightarrow> real" where
  "linear_law fe vars vals =
     sum_list (map (\<lambda>x. point vals (''delta_'' @ x) * \<bar>eval (point vals) (diff fe x)\<bar>) vars)"

text \<open>A mapping is complete for a list of variables when it binds each of them and its
  uncertainty name.\<close>

definition complete :: "string list \<Rightarrow> measurements \<Rightarrow> bool" where
  "complete vars vals =
     list_all (\<lambda>x. map_of vals x \<noteq> None \<and> map_of vals (''delta_'' @ x) \<noteq> None) vars"

section \<open>Formulas and measurements used as examples\<close>

text \<open>\<^verbatim>\<open>my_function1\<close> and \<^verbatim>\<open>values1\<close> of \<^verbatim>\<open>test_error.py\<close>.\<close>

definition my_function1 :: pyfunc where
  "my_function1 =
     \<lparr>args = [''a'', ''b''], varargs = None, varkw = None, defaults = [],
      kwonlyargs = [], kwonlydefaults = [], bound = False,
      body = (\<lambda>xs. Inr (Expression (Add (xs ! 0) (Mul (xs ! 0) (Pow (xs ! 1) (Num 3))))))\<rparr>"

definition values1 :: measurements where
  "values1 =
     [(''a'', (PyInt 1, BS # ''volt'')), (''b'', (PyInt 2, [])),
      (''delta_a'', (PyFloat (4 / 10), BS # ''volt'')), (''delta_b'', (PyFloat (5 / 10), []))]"

text \<open>\<^verbatim>\<open>def plain_sum(a, b): return a + b\<close>, and a mapping without an entry for \<open>a\<close>.\<close>

definition plain_sum :: pyfunc where
  "plain_sum =
     \<lparr>args = [''a'', ''b''], varargs = None, varkw = None, defaults = [],
      kwonlyargs = [], kwonlydefaults = [], bound = False,
      body = (\<lambda>xs. Inr (Expression (Add (xs ! 0) (xs ! 1))))\<rparr>"

definition values_without_a :: measurements where
  "values_without_a =
     [(''b'', (PyInt 2, [])),
      (''delta_a'', (PyFloat (4 / 10), [])), (''delta_b'', (PyFloat (5 / 10), []))]"

text \<open>\<^verbatim>\<open>def weighted(x, x_1): return x + 2 * x_1\<close>, with a complete mapping.\<close>

definition weighted :: pyfunc where
  "weighted =
     \<lparr>args = [''x'', ''x_1''], varargs = None, varkw = None, defaults = [],
      kwonlyargs = [], kwonlydefaults = [], bound = False,
      body = (\<lambda>xs. Inr (Expression (Add (xs ! 0) (Mul (Num 2) (xs ! 1)))))\<rparr>"

definition values_weighted :: measurements where
  "values_weighted =
     [(''x'', (PyInt 1, [])), (''x_1'', (PyInt 1, [])),
      (''delta_x'', (PyInt 1, [])), (''delta_x_1'', (PyInt 1, []))]"

text \<open>\<^verbatim>\<open>def first_only(x, x_1): return x\<close>: the parameter \<open>x_1\<close> is not used.\<close>

definition first_only :: pyfunc where
  "first_only =
     \<lparr>args = [''x'', ''x_1''], varargs = None, varkw = None, defaults = [],
      kwonlyargs = [], kwonlydefaults = [], bound = False,
      body = (\<lambda>xs. Inr (Expression (xs ! 0)))\<rparr>"

definition values_first_only :: measurements where
  "values_first_only =
     [(''x'', (PyInt 3, [])), (''x_1'', (PyInt 4, [])),
      (''delta_x'', (PyFloat (1 / 10), [])), (''delta_x_1'', (PyFloat (2 / 10), []))]"

text \<open>\<^verbatim>\<open>def with_default(a, b=2, *rest): return a * b\<close>.\<close>

definition with_default :: pyfunc where
  "with_default =
     \<lparr>args = [''a'', ''b''], varargs = Some ''rest'', varkw = None, defaults = [PyInt 2],
      kwonlyargs = [], kwonlydefaults = [], bound = False,
      body = (\<lambda>xs. Inr (Expression (Mul (xs ! 0) (xs ! 1))))\<rparr>"


text \<open>\<^verbatim>\<open>def scaled(a, b=2, *rest, unit=1, **opts): return a * b\<close>.\<close>

definition scaled :: pyfunc where
  "scaled =
     \<lparr>args = [''a'', ''b''], varargs = Some ''rest'', varkw = Some ''opts'',
      defaults = [PyInt 2], kwonlyargs = [''unit''], kwonlydefaults = [(''unit'', PyInt 1)],
      bound = False,
      body = (\<lambda>xs. Inr (Expression (Mul (xs ! 0) (xs ! 1))))\<rparr>"

text \<open>
  \<^verbatim>\<open>def weight(m): return m * sym.Symbol('g')\<close>: the body mentions a symbol that is no
  parameter. Two mappings for it that differ only under the key \<open>g\<close>.
\<close>

definition weight :: pyfunc where
  "weight =
     \<lparr>args = [''m''], varargs = None, varkw = None, defaults = [],
      kwonlyargs = [], kwonlydefaults = [], bound = False,
      body = (\<lambda>xs. Inr (Expression (Mul (xs ! 0) (Sym ''g''))))\<rparr>"

definition values_g2 :: measurements where
  "values_g2 = [(''m'', (PyInt 1, [])), (''delta_m'', (PyInt 1, [])), (''g'', (PyInt 2, []))]"

definition values_g5 :: measurements where
  "values_g5 = [(''m'', (PyInt 1, [])), (''delta_m'', (PyInt 1, [])), (''g'', (PyInt 5, []))]"

text \<open>A mapping for \<open>plain_sum\<close> without the uncertainty of \<open>b\<close>.\<close>

definition values_without_delta_b :: measurements where
  "values_without_delta_b =
     [(''a'', (PyInt 1, [])), (''b'', (PyInt 2, [])), (''delta_a'', (PyFloat (4 / 10), []))]"

text \<open>\<open>values1\<close> with one more entry, under a name that is no variable of the formula.\<close>

definition values1_extra :: measurements where
  "values1_extra = values1 @ [(''temperature'', (PyInt 300, ''K''))]"

text \<open>A printer of expressions that shows every expression as \<open>D\<close>; it stands in for
  \<^verbatim>\<open>sym.latex\<close> where a concrete text is computed.\<close>

definition latex_stub :: "expr \<Rightarrow> string" where
  "latex_stub e = ''D''"

text \<open>The instances that the constructor builds for the example formulas.\<close>

definition my_error :: Error where
  "my_error =
     \<lparr>variables = [''a'', ''b''], error_symbols = [''delta_a'', ''delta_b''],
      f = Add (Sym ''a'') (Mul (Sym ''a'') (Pow (Sym ''b'') (Num 3))),
      derivatives =
        [(''a'', Add (Num 1) (Add (Mul (Num 1) (Pow (Sym ''b'') (Num 3)))
                               (Mul (Sym ''a'') (Num 0)))),
         (''b'', Add (Num 0)
                  (Add (Mul (Num 0) (Pow (Sym ''b'') (Num 3)))
                       (Mul (Sym ''a'')
                          (Mul (Mul (Num 3) (Pow (Sym ''b'') (Sub (Num 3) (Num 1))))
                               (Num 1)))))]\<rparr>"

definition plain_sum_error :: Error where
  "plain_sum_error =
     \<lparr>variables = [''a'', ''b''], error_symbols = [''delta_a'', ''delta_b''],
      f = Add (Sym ''a'') (Sym ''b''),
      derivatives = [(''a'', Add (Num 1) (Num 0)), (''b'', Add (Num 0) (Num 1))]\<rparr>"

definition weighted_error :: Error where
  "weighted_error =
     \<lparr>variables = [''x'', ''x_1''], error_symbols = [''delta_x'', ''delta_x_1''],
      f = Add (Sym ''x'') (Mul (Num 2) (Sym ''x_1'')),
      derivatives =
        [(''x'', Add (Num 1) (Num 0)),
         (''x_1'', Add (Num 0) (Add (Mul (Num 0) (Sym ''x_1'')) (Mul (Num 2) (Num 1))))]\<rparr>"

definition first_only_error :: Error where
  "first_only_error =
     \<lparr>variables = [''x'', ''x_1''], error_symbols = [''delta_x'', ''delta_x_1''],
      f = Sym ''x'', derivatives = [(''x'', Num 1), (''x_1'', Num 0)]\<rparr>"

definition with_default_error :: Error where
  "with_default_error =
     \<lparr>variables = [''a'', ''b''], error_symbols = [''delta_a'', ''delta_b''],
      f = Mul (Sym ''a'') (Sym ''b''),
      derivatives =
        [(''a'', Add (Mul (Num 1) (Sym ''b'')) (Mul (Sym ''a'') (Num 0))),
         (''b'', Add (Mul (Num 0) (Sym ''b'')) (Mul (Sym ''a'') (Num 1)))]\<rparr>"

definition weight_error :: Error where
  "weight_error =
     \<lparr>variables = [''m''], error_symbols = [''delta_m''],
      f = Mul (Sym ''m'') (Sym ''g''),
      derivatives = [(''m'', Add (Mul (Num 1) (Sym ''g'')) (Mul (Sym ''m'') (Num 0)))]\<rparr>"

section \<open>Evaluation of the examples\<close>

lemmas init_eval = Error_init_def call_def Let_def

lemmas result_eval = Error_result_def error_sum_def error_term_def getitem_def index_def
  numeric_subst_def evaluate_def sum_exprs_def pow_real_def

lemma init_my_function1: "Error_init my_function1 = Inr my_error"
  by (simp add: init_eval my_function1_def my_error_def)

lemma init_plain_sum: "Error_init plain_sum = Inr plain_sum_error"
  by (simp add: init_eval plain_sum_def plain_sum_error_def)

lemma init_weighted: "Error_init weighted = Inr weighted_error"
  by (simp add: init_eval weighted_def weighted_error_def)

lemma init_first_only: "Error_init first_only = Inr first_only_error"
  by (simp add: init_eval first_only_def first_only_error_def)

lemma init_with_default: "Error_init with_default = Inr with_default_error"
  by (simp add: init_eval with_default_def with_default_error_def)

lemma init_weight: "Error_init weight = Inr weight_error"
  by (simp add: init_eval weight_def weight_error_def)

lemma result_my_error: "fst (Error_result my_error values1) = Inr (Num (48 / 5))"
  by (simp add: my_error_def values1_def result_eval)

section \<open>The constructor\<close>

lemma keys_fold_update:
  "distinct vs \<Longrightarrow> set vs \<inter> set (map fst acc) = {} \<Longrightarrow>
   map fst (foldl (\<lambda>d v. AList.update v (g v) d) acc vs) = map fst acc @ vs"
proof (induction vs arbitrary: acc)
  case Nil
  then show ?case by simp
next
  case (Cons v vs)
  have k: "map fst (AList.update v (g v) acc) = map fst acc @ [v]"
    using Cons.prems(2) by (simp add: update_keys)
  have "set vs \<inter> set (map fst (AList.update v (g v) acc)) = {}"
    using Cons.prems by (auto simp: k)
  with Cons.IH [of "AList.update v (g v) acc"] Cons.prems(1) k show ?case by simp
qed

lemma map_of_fold_update:
  "map_of (foldl (\<lambda>d v. AList.update v (g v) d) acc vs) x =
     (if x \<in> set vs then Some (g x) else map_of acc x)"
  by (induction vs arbitrary: acc) (auto simp: update_conv')

lemma init_fields:
  assumes "Error_init func = Inr self"
  shows "variables self = args func"
    and "error_symbols self = map (\<lambda>v. ''delta_'' @ v) (args func)"
    and "derivatives self =
           foldl (\<lambda>d v. AList.update v (diff (f self) v) d) [] (args func)"
  using assms
  by (auto simp: Error_init_def Let_def split: sum.splits pyval.splits if_splits)

lemma init_keys:
  assumes "Error_init func = Inr self" "distinct (args func)"
  shows "map fst (derivatives self) = args func"
  using keys_fold_update [of "args func" "[]" "\<lambda>v. diff (f self) v"] assms
  by (simp add: init_fields(3) [OF assms(1)])

lemma init_lookup:
  assumes "Error_init func = Inr self"
  shows "map_of (derivatives self) x =
           (if x \<in> set (args func) then Some (diff (f self) x) else None)"
  by (simp add: init_fields(3) [OF assms] map_of_fold_update)

text \<open>
  C4. After construction the keys of the derivative map are exactly the names the
  signature gives, in the same order and without duplicates (a Python signature never
  repeats a parameter name), and it is the list of variables; neither \<^verbatim>\<open>result\<close> nor
  \<^verbatim>\<open>latex_out\<close> changes the map.
\<close>

theorem derivative_map_keys:
  assumes "Error_init func = Inr self" and "distinct (args func)"
  shows "map fst (derivatives self) = args func
         \<and> distinct (map fst (derivatives self))
         \<and> variables self = args func
         \<and> derivatives (snd (Error_result self vals)) = derivatives self
         \<and> derivatives (snd (Error_latex_out latex format self vals)) = derivatives self"
  using init_keys [OF assms] init_fields(1) [OF assms(1)] assms(2)
  by (simp add: Error_result_def Error_latex_out_def)

theorem derivative_map_keys_witness:
  "Error_init my_function1 = Inr my_error \<and> distinct (args my_function1)
   \<and> map fst (derivatives my_error) = [''a'', ''b'']
   \<and> distinct (map fst (derivatives my_error))
   \<and> variables my_error = [''a'', ''b'']
   \<and> derivatives (snd (Error_result my_error values1)) = derivatives my_error
   \<and> derivatives (snd (Error_latex_out latex_stub py_format my_error values1))
       = derivatives my_error"
proof -
  have d: "distinct (args my_function1)" by (simp add: my_function1_def)
  show ?thesis
    using derivative_map_keys [OF init_my_function1 d, of values1 latex_stub py_format]
      init_my_function1 d
    by (simp add: my_function1_def)
qed

text \<open>
  C5, as the code has it. No signature is refused. For a callable that is not a bound
  method, whose keyword-only parameters all have a default, and which returns an
  expression when it is called once on one symbol per positional parameter name,
  construction succeeds: the variables are the positional parameter names in order,
  those with a default value included, and the formula is that expression. Default
  values and variadic parameters play no part: construction gives the same outcome
  whatever they are.
\<close>

theorem signature_never_refused:
  assumes "\<not> bound func"
    and "list_all (\<lambda>k. map_of (kwonlydefaults func) k \<noteq> None) (kwonlyargs func)"
    and "body func (map Sym (args func)) = Inr (Expression fe)"
  shows "Error_init func =
           Inr \<lparr>variables = args func,
                error_symbols = map (\<lambda>v. ''delta_'' @ v) (args func), f = fe,
                derivatives = foldl (\<lambda>d v. AList.update v (diff fe v) d) [] (args func)\<rparr>
         \<and> Error_init (func\<lparr>defaults := ds, varargs := va, varkw := vk\<rparr>) = Error_init func"
  using assms by (simp add: Error_init_def call_def Let_def)

theorem signature_never_refused_witness:
  "\<not> bound scaled
   \<and> list_all (\<lambda>k. map_of (kwonlydefaults scaled) k \<noteq> None) (kwonlyargs scaled)
   \<and> body scaled (map Sym (args scaled)) = Inr (Expression (Mul (Sym ''a'') (Sym ''b'')))
   \<and> defaults scaled = [PyInt 2] \<and> varargs scaled = Some ''rest''
   \<and> varkw scaled = Some ''opts'' \<and> kwonlyargs scaled = [''unit'']
   \<and> Error_init scaled = Inr with_default_error
   \<and> variables with_default_error = [''a'', ''b'']
   \<and> Error_init (scaled\<lparr>defaults := [], varargs := None, varkw := None\<rparr>)
       = Inr with_default_error"
proof -
  have b: "\<not> bound scaled" by (simp add: scaled_def)
  have k: "list_all (\<lambda>k. map_of (kwonlydefaults scaled) k \<noteq> None) (kwonlyargs scaled)"
    by (simp add: scaled_def)
  have r: "body scaled (map Sym (args scaled)) = Inr (Expression (Mul (Sym ''a'') (Sym ''b'')))"
    by (simp add: scaled_def)
  have a: "args scaled = [''a'', ''b'']" "defaults scaled = [PyInt 2]"
    "varargs scaled = Some ''rest''" "varkw scaled = Some ''opts''"
    "kwonlyargs scaled = [''unit'']"
    by (simp_all add: scaled_def)
  show ?thesis
    using signature_never_refused [where ds = "[]" and va = None and vk = None, OF b k r]
      b k r a
    by (simp add: with_default_error_def)
qed

text \<open>
  C5 as stated fails: \<^verbatim>\<open>def with_default(a, b=2, *rest): return a * b\<close> has a
  default-valued and a variadic parameter, and construction returns an instance with the
  variables \<open>a\<close> and \<open>b\<close>.
\<close>

theorem default_valued_signature_accepted:
  "defaults with_default = [PyInt 2] \<and> varargs with_default = Some ''rest''
   \<and> Error_init with_default = Inr with_default_error
   \<and> variables with_default_error = [''a'', ''b'']"
  by (simp add: init_with_default) (simp add: with_default_def with_default_error_def)

section \<open>Reading the mapping and the derivative map\<close>

lemma split_Cons_takeWhile:
  "\<exists>ws. split c s = takeWhile (\<lambda>x. x \<noteq> c) s # ws"
  by (induction s) (auto split: list.splits)

text \<open>
  \<^verbatim>\<open>delta_name.split("_")[1]\<close> is the variable name up to its first underscore, not the
  variable name.
\<close>

lemma split_delta:
  "index (split (CHR ''_'') (''delta_'' @ n)) 1 = Inr (takeWhile (\<lambda>x. x \<noteq> CHR ''_'') n)"
proof -
  obtain ws where "split (CHR ''_'') n = takeWhile (\<lambda>x. x \<noteq> CHR ''_'') n # ws"
    using split_Cons_takeWhile by blast
  then show ?thesis by (simp add: index_def)
qed

lemma error_term_delta:
  "error_term self vals (''delta_'' @ n) =
     (case map_of vals (''delta_'' @ n) of
        None \<Rightarrow> Inl (KeyError (''delta_'' @ n))
      | Some u \<Rightarrow>
          (case map_of (derivatives self) (takeWhile (\<lambda>x. x \<noteq> CHR ''_'') n) of
             None \<Rightarrow> Inl (KeyError (takeWhile (\<lambda>x. x \<noteq> CHR ''_'') n))
           | Some d \<Rightarrow> Inr (Mul (Num (num_val (fst u))) (Abs (subs (numeric_subst vals) d)))))"
  unfolding error_term_def getitem_def split_delta by (simp split: option.splits)

lemma comprehension_cong:
  "(\<And>x. x \<in> set xs \<Longrightarrow> g x = h x) \<Longrightarrow> comprehension g xs = comprehension h xs"
  by (induction xs) (auto split: sum.splits)

lemma comprehension_Inl:
  "comprehension g xs = Inl e \<Longrightarrow> \<exists>x \<in> set xs. g x = Inl e"
  by (induction xs arbitrary: e) (auto split: sum.splits)

lemma comprehension_all_Inr:
  "(\<And>x. x \<in> set xs \<Longrightarrow> g x = Inr (h x)) \<Longrightarrow> comprehension g xs = Inr (map h xs)"
  by (induction xs) auto

lemma comprehension_fails:
  "x \<in> set xs \<Longrightarrow> g x = Inl e \<Longrightarrow> \<exists>e'. comprehension g xs = Inl e'"
  by (induction xs) (auto split: sum.splits)

lemma comprehension_first:
  "List.find (\<lambda>x. isl (g x)) xs = Some x \<Longrightarrow> comprehension g xs = Inl (projl (g x))"
  by (induction xs) (auto split: sum.splits if_splits)

lemma has_diff: "has (diff e x) y \<Longrightarrow> has e y"
  by (induction e) (auto split: if_splits)


lemma subs_cong:
  "(\<And>y. has e y \<Longrightarrow> map_of \<sigma> y = map_of \<tau> y) \<Longrightarrow> subs \<sigma> e = subs \<tau> e"
  by (induction e) auto

lemma map_of_numeric_subst:
  "map_of (numeric_subst vals) y = map_option (\<lambda>v. Num (num_val (fst v))) (map_of vals y)"
  unfolding numeric_subst_def by (induction vals) auto

text \<open>
  C10. When the formula mentions no symbol besides its parameters, two mappings that
  agree on every variable name and every uncertainty name give the same outcome of
  \<^verbatim>\<open>result\<close>: entries under other keys play no part.
\<close>

theorem result_ignores_other_keys:
  assumes init: "Error_init func = Inr self"
    and body: "free_symbols (f self) \<subseteq> set (variables self)"
    and agree: "\<forall>k \<in> set (variables self) \<union> set (error_symbols self). map_of v1 k = map_of v2 k"
  shows "fst (Error_result self v1) = fst (Error_result self v2)"
proof -
  have esyms: "error_symbols self = map (\<lambda>v. ''delta_'' @ v) (args func)"
    using init_fields [OF init] by simp
  have sub: "subs (numeric_subst v1) d = subs (numeric_subst v2) d"
    if "map_of (derivatives self) k = Some d" for k d
  proof (rule subs_cong)
    fix y assume "has d y"
    from that have "d = diff (f self) k"
      by (simp add: init_lookup [OF init] split: if_splits)
    with \<open>has d y\<close> have "has (f self) y" using has_diff by blast
    then have "y \<in> set (variables self)" using body by (auto simp: free_symbols_def)
    then show "map_of (numeric_subst v1) y = map_of (numeric_subst v2) y"
      using agree by (simp add: map_of_numeric_subst)
  qed
  have "error_term self v1 dn = error_term self v2 dn" if "dn \<in> set (error_symbols self)" for dn
  proof -
    from that obtain n where dn: "dn = ''delta_'' @ n" by (auto simp: esyms)
    have "map_of v1 dn = map_of v2 dn" using agree that by blast
    then show ?thesis
      unfolding dn error_term_delta using sub by (auto split: option.splits)
  qed
  then have "comprehension (error_term self v1) (error_symbols self)
           = comprehension (error_term self v2) (error_symbols self)"
    by (rule comprehension_cong)
  then show ?thesis by (simp add: Error_result_def error_sum_def)
qed

theorem result_ignores_other_keys_witness:
  "Error_init my_function1 = Inr my_error
   \<and> free_symbols (f my_error) \<subseteq> set (variables my_error)
   \<and> list_all (\<lambda>k. map_of values1 k = map_of values1_extra k)
         (variables my_error @ error_symbols my_error)
   \<and> map_of values1 ''temperature'' \<noteq> map_of values1_extra ''temperature''
   \<and> fst (Error_result my_error values1) = fst (Error_result my_error values1_extra)"
proof -
  have b: "free_symbols (f my_error) \<subseteq> set (variables my_error)"
    by (auto simp: free_symbols_def my_error_def)
  have a: "\<forall>k \<in> set (variables my_error) \<union> set (error_symbols my_error).
             map_of values1 k = map_of values1_extra k"
    by (simp add: my_error_def values1_extra_def values1_def)
  have t: "map_of values1 ''temperature'' \<noteq> map_of values1_extra ''temperature''"
    by (simp add: values1_extra_def values1_def)
  have l: "list_all (\<lambda>k. map_of values1 k = map_of values1_extra k)
             (variables my_error @ error_symbols my_error)"
    using a by (auto simp: list_all_iff)
  show ?thesis
    using result_ignores_other_keys [OF init_my_function1 b a] init_my_function1 b l t
    by blast
qed

text \<open>
  C10 as stated fails: \<^verbatim>\<open>result\<close> substitutes every key of the mapping. For
  \<^verbatim>\<open>def weight(m): return m * sym.Symbol('g')\<close> two mappings that agree on \<open>m\<close> and
  \<open>delta_m\<close> and differ under the key \<open>g\<close> give 2 and 5.
\<close>

theorem foreign_symbol_read_from_mapping:
  "Error_init weight = Inr weight_error
   \<and> list_all (\<lambda>k. map_of values_g2 k = map_of values_g5 k)
         (variables weight_error @ error_symbols weight_error)
   \<and> fst (Error_result weight_error values_g2) = Inr (Num 2)
   \<and> fst (Error_result weight_error values_g5) = Inr (Num 5)"
  by (simp add: init_weight)
     (simp add: weight_error_def values_g2_def values_g5_def result_eval)

section \<open>The scenario of test\_error.py\<close>

text \<open>
  C6. For \<open>f(a, b) = a + a b\<^sup>3\<close> the cached derivatives denote \<open>1 + b\<^sup>3\<close> and
  \<open>3 a b\<^sup>2\<close> at every point, and at \<open>a = 1\<close>, \<open>b = 2\<close> with uncertainties 0.4 and 0.5
  \<^verbatim>\<open>result\<close> returns 9.6 (as a real number: 0.4 times 9 plus 0.5 times 12).
\<close>

theorem test_error_scenario:
  "Error_init my_function1 = Inr my_error
   \<and> (\<exists>da db. getitem (derivatives my_error) ''a'' = Inr da
          \<and> getitem (derivatives my_error) ''b'' = Inr db
          \<and> (\<forall>\<rho>. eval \<rho> da = 1 + \<rho> ''b'' ^ 3)
          \<and> (\<forall>\<rho>. eval \<rho> db = 3 * \<rho> ''a'' * \<rho> ''b'' ^ 2))
   \<and> fst (Error_result my_error values1) = Inr (Num (96 / 10))"
proof -
  have "\<exists>da db. getitem (derivatives my_error) ''a'' = Inr da
          \<and> getitem (derivatives my_error) ''b'' = Inr db
          \<and> (\<forall>\<rho>. eval \<rho> da = 1 + \<rho> ''b'' ^ 3)
          \<and> (\<forall>\<rho>. eval \<rho> db = 3 * \<rho> ''a'' * \<rho> ''b'' ^ 2)"
    by (simp add: my_error_def getitem_def pow_real_def)
  then show ?thesis
    using init_my_function1 result_my_error by simp
qed

section \<open>Variable names with an underscore\<close>

text \<open>
  C2 at a failing input. \<^verbatim>\<open>def weighted(x, x_1): return x + 2 * x_1\<close> with every value
  and uncertainty equal to 1: the mapping is complete, the law of the specification
  gives \<open>1 * |1| + 1 * |2| = 3\<close>, and \<^verbatim>\<open>result\<close> returns 2, because the term of \<open>x_1\<close>
  reads the derivative stored under \<open>x\<close>.
\<close>

theorem weighted_result_is_not_the_law:
  "Error_init weighted = Inr weighted_error
   \<and> complete (variables weighted_error) values_weighted
   \<and> index (split (CHR ''_'') ''delta_x_1'') 1 = Inr ''x''
   \<and> fst (Error_result weighted_error values_weighted) = Inr (Num 2)
   \<and> linear_law (f weighted_error) (variables weighted_error) values_weighted = 3"
  by (simp add: init_weighted)
     (simp add: weighted_error_def values_weighted_def result_eval complete_def
        linear_law_def point_def)

text \<open>
  C7 at a failing input. \<^verbatim>\<open>def first_only(x, x_1): return x\<close> does not use \<open>x_1\<close>, and the
  cached derivative for \<open>x_1\<close> is 0; yet with uncertainties 0.1 and 0.2 the term of
  \<open>x_1\<close> is \<open>0.2 * |1|\<close> and \<^verbatim>\<open>result\<close> returns 0.3 instead of 0.1.
\<close>

theorem unused_parameter_contributes:
  "Error_init first_only = Inr first_only_error
   \<and> \<not> has (f first_only_error) ''x_1''
   \<and> getitem (derivatives first_only_error) ''x_1'' = Inr (Num 0)
   \<and> complete (variables first_only_error) values_first_only
   \<and> error_term first_only_error values_first_only ''delta_x_1''
       = Inr (Mul (Num (2 / 10)) (Abs (Num 1)))
   \<and> fst (Error_result first_only_error values_first_only) = Inr (Num (3 / 10))"
  by (simp add: init_first_only)
     (simp add: first_only_error_def values_first_only_def result_eval complete_def)

section \<open>Missing entries\<close>

text \<open>
  C1 as stated fails: with \<^verbatim>\<open>def plain_sum(a, b): return a + b\<close> and a mapping that has
  no entry for \<open>a\<close>, \<^verbatim>\<open>result\<close> raises nothing and returns 0.9.
\<close>

theorem missing_value_not_reported:
  "Error_init plain_sum = Inr plain_sum_error
   \<and> ''a'' \<in> set (variables plain_sum_error)
   \<and> map_of values_without_a ''a'' = None
   \<and> fst (Error_result plain_sum_error values_without_a) = Inr (Num (9 / 10))"
  by (simp add: init_plain_sum)
     (simp add: plain_sum_error_def values_without_a_def result_eval)

lemma substitute_term_variable:
  assumes "Error_init func = Inr self" and "y \<in> set (variables self)"
  shows "substitute_term latex format self vals y =
           (case map_of vals (''delta_'' @ y) of
              None \<Rightarrow> Inl (KeyError (''delta_'' @ y))
            | Some u \<Rightarrow>
                Inr (format (fst u) @ '' '' @ [BS] @ ''cdot '' @ [BS] @ ''left|''
                     @ latex (subs (display_subst vals) (diff (f self) y))
                     @ [BS] @ ''right|''))"
proof -
  have "y \<in> set (args func)" using assms init_fields(1) by metis
  then have "map_of (derivatives self) y = Some (diff (f self) y)"
    using init_lookup [OF assms(1), of y] by simp
  then show ?thesis
    unfolding substitute_term_def getitem_def Let_def
    by (simp split: option.splits)
qed

lemma comprehension_find:
  "List.find P xs = Some x \<Longrightarrow> (\<And>y. y \<in> set xs \<Longrightarrow> isl (g y) = P y)
     \<Longrightarrow> comprehension g xs = Inl (projl (g x))"
proof (induction xs)
  case Nil
  then show ?case by simp
next
  case (Cons a xs)
  show ?case
  proof (cases "P a")
    case True
    with Cons.prems have "x = a" and "isl (g a)" by auto
    then show ?thesis by (cases "g a") auto
  next
    case False
    with Cons.prems have "List.find P xs = Some x" and "\<not> isl (g a)" by auto
    with Cons show ?thesis by (cases "g a") (auto split: sum.splits)
  qed
qed

text \<open>
  C1, as the code has it. When the mapping lacks the uncertainty entry of a declared
  variable, \<^verbatim>\<open>result\<close> raises a \<^verbatim>\<open>KeyError\<close> and returns nothing, and \<^verbatim>\<open>latex_out\<close>
  raises the \<^verbatim>\<open>KeyError\<close> that names the uncertainty key of the first such variable.
\<close>

theorem missing_uncertainty_raises:
  assumes init: "Error_init func = Inr self"
    and first: "List.find (\<lambda>x. map_of vals (''delta_'' @ x) = None) (variables self) = Some x"
  shows "(\<exists>k. fst (Error_result self vals) = Inl (KeyError k))
       \<and> fst (Error_latex_out latex format self vals) = Inl (KeyError (''delta_'' @ x))"
proof -
  have esyms: "error_symbols self = map (\<lambda>v. ''delta_'' @ v) (variables self)"
    using init_fields [OF init] by simp
  from first have x: "x \<in> set (variables self)" and none: "map_of vals (''delta_'' @ x) = None"
    using find_Some_iff [of "\<lambda>x. map_of vals (''delta_'' @ x) = None" "variables self" x]
    by (metis nth_mem)+
  have "error_term self vals (''delta_'' @ x) = Inl (KeyError (''delta_'' @ x))"
    unfolding error_term_delta none by simp
  moreover have "''delta_'' @ x \<in> set (error_symbols self)"
    unfolding esyms set_map using x by (rule imageI)
  ultimately obtain e' where e': "comprehension (error_term self vals) (error_symbols self) = Inl e'"
    using comprehension_fails [of "''delta_'' @ x" "error_symbols self" "error_term self vals"] by blast
  then obtain dn where "dn \<in> set (error_symbols self)" and dn: "error_term self vals dn = Inl e'"
    using comprehension_Inl by blast
  then obtain n where "dn = ''delta_'' @ n" unfolding esyms set_map by blast
  with dn have "error_term self vals (''delta_'' @ n) = Inl e'" by blast
  then obtain k where "e' = KeyError k"
    unfolding error_term_delta by (auto split: option.splits)
  with e' have res: "\<exists>k. fst (Error_result self vals) = Inl (KeyError k)"
    by (simp add: Error_result_def error_sum_def)
  have isl: "isl (substitute_term latex format self vals y) = (map_of vals (''delta_'' @ y) = None)"
    if "y \<in> set (variables self)" for y
    unfolding substitute_term_variable [OF init that] by (cases "map_of vals (''delta_'' @ y)") simp_all
  have "comprehension (substitute_term latex format self vals) (variables self)
      = Inl (projl (substitute_term latex format self vals x))"
    using first isl by (rule comprehension_find)
  moreover have "substitute_term latex format self vals x = Inl (KeyError (''delta_'' @ x))"
    unfolding substitute_term_variable [OF init x] none by simp
  ultimately have "substitute latex format self vals = Inl (KeyError (''delta_'' @ x))"
    unfolding substitute_def by simp
  then have "fst (Error_latex_out latex format self vals) = Inl (KeyError (''delta_'' @ x))"
    unfolding Error_latex_out_def latex_text_def substituted_line_def Let_def by simp
  with res show ?thesis by blast
qed

theorem missing_uncertainty_raises_witness:
  "Error_init plain_sum = Inr plain_sum_error
   \<and> List.find (\<lambda>x. map_of values_without_delta_b (''delta_'' @ x) = None)
        (variables plain_sum_error) = Some ''b''
   \<and> (\<exists>k. fst (Error_result plain_sum_error values_without_delta_b) = Inl (KeyError k))
   \<and> fst (Error_latex_out latex_stub py_format plain_sum_error values_without_delta_b)
       = Inl (KeyError ''delta_b'')"
proof -
  have h: "List.find (\<lambda>x. map_of values_without_delta_b (''delta_'' @ x) = None)
             (variables plain_sum_error) = Some ''b''"
    by (simp add: plain_sum_error_def values_without_delta_b_def)
  show ?thesis
    using missing_uncertainty_raises [OF init_plain_sum h, of latex_stub py_format]
      init_plain_sum h
    by simp
qed

section \<open>The rendered block\<close>

lemma repr_float_04: "repr_float (2 / 5) = ''0.4''"
  by (simp add: repr_float_def digits.simps eval_nat_numeral)

lemma repr_float_05: "repr_float (1 / 2) = ''0.5''"
  by (simp add: repr_float_def digits.simps eval_nat_numeral)

lemma repr_float_96: "repr_float (48 / 5) = ''9.6''"
  by (simp add: repr_float_def digits.simps eval_nat_numeral)

lemma str_int_1: "str_int 1 = ''1''"
  by (simp add: str_int_def digits.simps)

lemma str_int_2: "str_int 2 = ''2''"
  by (simp add: str_int_def digits.simps)

lemma format_fixed_96: "format_fixed 6 (48 / 5) = ''9.600000''"
proof -
  have s: "nat (round_half_even (\<bar>48 / 5\<bar> * 10 ^ 6)) = 9600000"
    by (simp add: round_half_even_def)
  have d1: "digits (9600000 mod 10 ^ 6) = ''600000''"
    by (simp add: digits.simps)
  have d2: "digits (9600000 div 10 ^ 6) = ''9''"
    by (simp add: digits.simps)
  show ?thesis
    unfolding format_fixed_def Let_def s d1 d2 by simp
qed

lemma error_sum_my_error: "error_sum my_error values1 = Inr (Num (48 / 5))"
  using result_my_error by (simp add: Error_result_def)

lemma generic_line_my_error:
  "generic_line latex_stub my_error =
     ''    &= '' @ [BS] @ ''Delta a '' @ [BS] @ ''cdot '' @ [BS] @ ''left|D'' @ [BS] @ ''right| + ''
     @ [BS] @ ''Delta b '' @ [BS] @ ''cdot '' @ [BS] @ ''left|D'' @ [BS] @ ''right|''
     @ [BS, BS] @ ''\<newline>''"
  by (simp add: generic_line_def my_error_def latex_stub_def)

lemma substitute_my_error:
  "substitute latex_stub py_format my_error values1 =
     Inr (''0.4 '' @ [BS] @ ''cdot '' @ [BS] @ ''left|D'' @ [BS] @ ''right| + 0.5 '' @ [BS]
          @ ''cdot '' @ [BS] @ ''left|D'' @ [BS] @ ''right|'')"
  by (simp add: substitute_def substitute_term_def my_error_def values1_def getitem_def
      display_subst_def latex_stub_def repr_float_04 repr_float_05)

lemma substituted_line_my_error:
  "substituted_line latex_stub py_format my_error values1 =
     Inr (''    &= '' @ [BS] @ ''SI{0.4}{'' @ [BS] @ ''volt} '' @ [BS] @ ''cdot '' @ [BS]
          @ ''left|D'' @ [BS] @ ''right| + '' @ [BS] @ ''SI{0.5}{} '' @ [BS] @ ''cdot '' @ [BS]
          @ ''left|D'' @ [BS] @ ''right|'' @ [BS, BS] @ ''\<newline>'')"
  by (simp add: substituted_line_def substitute_my_error)
     (simp add: values1_def annotate_def repr_float_04 repr_float_05 str_int_1 str_int_2)

lemma result_line_my_error:
  "result_line py_format my_error values1 = Inr (''    &= '' @ [BS] @ ''SI{9.6}{}\<newline>'')"
  by (simp add: result_line_def error_sum_my_error to_float_def repr_float_96)

lemma latex_out_my_error:
  "fst (Error_latex_out latex_stub py_format my_error values1) =
     Inr ([BS] @ ''begin{align*}\<newline>''
          @ ''    &= '' @ [BS] @ ''Delta a '' @ [BS] @ ''cdot '' @ [BS] @ ''left|D'' @ [BS]
          @ ''right| + '' @ [BS] @ ''Delta b '' @ [BS] @ ''cdot '' @ [BS] @ ''left|D'' @ [BS]
          @ ''right|'' @ [BS, BS] @ ''\<newline>''
          @ ''    &= '' @ [BS] @ ''SI{0.4}{'' @ [BS] @ ''volt} '' @ [BS] @ ''cdot '' @ [BS]
          @ ''left|D'' @ [BS] @ ''right| + '' @ [BS] @ ''SI{0.5}{} '' @ [BS] @ ''cdot '' @ [BS]
          @ ''left|D'' @ [BS] @ ''right|'' @ [BS, BS] @ ''\<newline>''
          @ ''    &= '' @ [BS] @ ''SI{9.6}{}\<newline>''
          @ [BS] @ ''end{align*}\<newline>\<newline>'')"
  unfolding Error_latex_out_def latex_text_def Let_def generic_line_my_error
    substituted_line_my_error result_line_my_error
  by simp

text \<open>
  C9 as stated fails: for the scenario of \<^verbatim>\<open>test_error.py\<close> the third line of the block
  is \<^verbatim>\<open>    &= \SI{9.6}{}\<close>, not the value with six digits after the point, which
  would be \<^verbatim>\<open>9.600000\<close>.
\<close>

theorem third_line_not_six_digits:
  "complete (variables my_error) values1
   \<and> fst (Error_result my_error values1) = Inr (Num (96 / 10))
   \<and> result_line py_format my_error values1
       = Inr (''    &= '' @ [BS] @ ''SI{9.6}{}\<newline>'')
   \<and> format_fixed 6 (96 / 10) = ''9.600000''
   \<and> result_line py_format my_error values1
       \<noteq> Inr (''    &= '' @ [BS] @ ''SI{'' @ format_fixed 6 (96 / 10) @ ''}{}\<newline>'')"
proof -
  have c: "complete (variables my_error) values1"
    by (simp add: complete_def my_error_def values1_def)
  have f: "format_fixed 6 (96 / 10) = ''9.600000''"
    using format_fixed_96 by simp
  show ?thesis
    unfolding f result_line_my_error using c result_my_error by simp
qed

text \<open>
  C9, as the code has it. \<^verbatim>\<open>latex_out\<close> takes no precision. Whenever it returns a
  text, the text is the opening line, the generic line, the substituted line, the
  result line and the closing line, and the result line is \<^verbatim>\<open>    &= \SI{...}{}\<close> around
  the number that \<^verbatim>\<open>result\<close> returns for the same mapping, converted by \<^verbatim>\<open>float\<close> and
  printed the way an f-string prints a number without format specification.
\<close>

theorem third_line_default_format:
  assumes "fst (Error_latex_out latex format self vals) = Inr text"
  shows "\<exists>line2 e r. substituted_line latex format self vals = Inr line2
           \<and> fst (Error_result self vals) = Inr e \<and> to_float e = Inr r
           \<and> text = [BS] @ ''begin{align*}\<newline>'' @ generic_line latex self @ line2
                     @ ''    &= '' @ [BS] @ ''SI{'' @ format (PyFloat r) @ ''}{}\<newline>''
                     @ [BS] @ ''end{align*}\<newline>\<newline>''"
  using assms
  by (auto simp: Error_latex_out_def latex_text_def Let_def result_line_def Error_result_def
      split: sum.splits)

theorem third_line_default_format_witness:
  "fst (Error_latex_out latex_stub py_format my_error values1) =
     Inr ([BS] @ ''begin{align*}\<newline>''
          @ ''    &= '' @ [BS] @ ''Delta a '' @ [BS] @ ''cdot '' @ [BS] @ ''left|D'' @ [BS]
          @ ''right| + '' @ [BS] @ ''Delta b '' @ [BS] @ ''cdot '' @ [BS] @ ''left|D'' @ [BS]
          @ ''right|'' @ [BS, BS] @ ''\<newline>''
          @ ''    &= '' @ [BS] @ ''SI{0.4}{'' @ [BS] @ ''volt} '' @ [BS] @ ''cdot '' @ [BS]
          @ ''left|D'' @ [BS] @ ''right| + '' @ [BS] @ ''SI{0.5}{} '' @ [BS] @ ''cdot '' @ [BS]
          @ ''left|D'' @ [BS] @ ''right|'' @ [BS, BS] @ ''\<newline>''
          @ ''    &= '' @ [BS] @ ''SI{9.6}{}\<newline>''
          @ [BS] @ ''end{align*}\<newline>\<newline>'')
   \<and> (\<exists>line2 e r. substituted_line latex_stub py_format my_error values1 = Inr line2
          \<and> fst (Error_result my_error values1) = Inr e \<and> to_float e = Inr r
          \<and> py_format (PyFloat r) = ''9.6'')"
proof -
  obtain line2 e r where
    l: "substituted_line latex_stub py_format my_error values1 = Inr line2"
    and e: "fst (Error_result my_error values1) = Inr e" and r: "to_float e = Inr r"
    using third_line_default_format [OF latex_out_my_error] by blast
  from e r have rv: "r = 48 / 5"
    using result_my_error by (auto simp: to_float_def)
  have "py_format (PyFloat r) = ''9.6''"
    unfolding rv by (simp add: repr_float_96)
  with l e r latex_out_my_error show ?thesis by blast
qed

section \<open>The entries of the derivative map\<close>












end
